theory Spec2Isabelle
  imports Complex_Main
begin

section \<open>The request context of package tong (context.go)\<close>

text \<open>
  The file context.go defines the per-request \<open>Context\<close> and its methods. Every method
  is embedded as a function that takes the context and returns the updated context next
  to the method's result. A Go \<open>error\<close> is a value of the datatype \<open>error\<close>;
  \<open>nil\<close> is \<open>None\<close>. Go's \<open>int\<close> is modelled as \<open>int\<close>: the methods only
  compare and store status codes and never compute with them, and the 64-bit range of a
  parsed number is written out in \<open>Atoi\<close>. A \<open>string\<close> and a \<open>[]byte\<close> are both lists of bytes,
  so the conversion \<open>[]byte(value)\<close> is the identity.
\<close>

subsection \<open>Errors\<close>

datatype error =
    errors_New string    \<comment> \<open>the value of \<open>errors.New(text)\<close>\<close>
  | ErrSyntax string     \<comment> \<open>strconv: the input is not a number\<close>
  | ErrRange string      \<comment> \<open>strconv: the number does not fit the type\<close>
  | LibError string      \<comment> \<open>an error made by a collaborator (transport, parser, encoder, binder)\<close>

type_synonym bytes = "char list"

subsection \<open>The library types the methods work on\<close>

text \<open>
  \<open>http.Header\<close> and \<open>url.Values\<close> are Go maps from a string to a list of strings.
  \<open>Header.Get\<close> and \<open>Header.Set\<close> canonicalise the key with
  \<open>textproto.CanonicalMIMEHeaderKey\<close>: a key made of token bytes only gets an upper
  case letter at its start and after each \<open>-\<close> and lower case letters elsewhere; any
  other key is left as it is. \<open>Values.Get\<close> uses the key as it is. Both return the
  first value of the key, or the empty string when there is none.
\<close>

type_synonym Values = "string \<rightharpoonup> string list"
type_synonym Header = "string \<rightharpoonup> string list"

definition is_lower :: "char \<Rightarrow> bool" where
  "is_lower c = (97 \<le> (of_char c :: nat) \<and> (of_char c :: nat) \<le> 122)"

definition is_upper :: "char \<Rightarrow> bool" where
  "is_upper c = (65 \<le> (of_char c :: nat) \<and> (of_char c :: nat) \<le> 90)"

definition is_digit :: "char \<Rightarrow> bool" where
  "is_digit c = (48 \<le> (of_char c :: nat) \<and> (of_char c :: nat) \<le> 57)"

definition validHeaderFieldByte :: "char \<Rightarrow> bool" where
  "validHeaderFieldByte c =
     (is_lower c \<or> is_upper c \<or> is_digit c \<or>
      (of_char c :: nat) \<in> {33, 35, 36, 37, 38, 39, 42, 43, 45, 46, 94, 95, 96, 124, 126})"

fun canonical_case :: "bool \<Rightarrow> string \<Rightarrow> string" where
  "canonical_case upper [] = []"
| "canonical_case upper (c # cs) =
     (let c' = (if upper \<and> is_lower c then char_of ((of_char c :: nat) - 32)
                else if \<not> upper \<and> is_upper c then char_of ((of_char c :: nat) + 32)
                else c)
      in c' # canonical_case (c' = CHR ''-'') cs)"

definition CanonicalMIMEHeaderKey :: "string \<Rightarrow> string" where
  "CanonicalMIMEHeaderKey s =
     (if list_all validHeaderFieldByte s then canonical_case True s else s)"

definition first_value :: "string list option \<Rightarrow> string" where
  "first_value vs = (case vs of None \<Rightarrow> [] | Some [] \<Rightarrow> [] | Some (v # _) \<Rightarrow> v)"

definition Header_Get :: "Header \<Rightarrow> string \<Rightarrow> string" where
  "Header_Get h key = first_value (h (CanonicalMIMEHeaderKey key))"

definition Header_Set :: "Header \<Rightarrow> string \<Rightarrow> string \<Rightarrow> Header" where
  "Header_Set h key v = h(CanonicalMIMEHeaderKey key \<mapsto> [v])"

definition Values_Get :: "Values \<Rightarrow> string \<Rightarrow> string" where
  "Values_Get m key = first_value (m key)"

definition HasPrefix :: "string \<Rightarrow> string \<Rightarrow> bool" where
  "HasPrefix s p = (length p \<le> length s \<and> take (length p) s = p)"

text \<open>
  \<open>http.ResponseWriter\<close> is the outbound side of the connection. The model keeps the
  header map that its \<open>Header()\<close> hands out and the outcome of a write to the
  transport: \<open>None\<close> on a healthy connection, the transport's error otherwise.
\<close>

record ResponseWriter =
  WHeader :: Header
  werr :: "error option"

text \<open>
  \<open>*http.Request\<close>: the parsed query string (the result of \<open>URL.Query()\<close>), the
  request headers, the body, and the two form maps, which are \<open>nil\<close> until one of the
  parsing methods has run.
\<close>

record Request =
  URL_Query :: Values
  ReqHeader :: Header
  Body :: bytes
  Form :: "Values option"
  PostForm :: "Values option"

subsection \<open>Declarations of the repository that context.go uses\<close>

text \<open>
  Modelled from the spec: \<open>common.HeaderLocation\<close> is declared outside context.go;
  the spec calls it the Location header.
\<close>

definition common_HeaderLocation :: string where
  "common_HeaderLocation = ''Location''"

text \<open>
  Modelled from the spec: \<open>common.HeaderContentType\<close> is declared outside context.go;
  the spec calls it the Content-Type header.
\<close>

definition common_HeaderContentType :: string where
  "common_HeaderContentType = ''Content-Type''"

text \<open>
  Modelled from the spec: \<open>HeaderContentType\<close> of package tong is declared outside
  context.go; the spec calls it the Content-Type header (of the request).
\<close>

definition HeaderContentType :: string where
  "HeaderContentType = ''Content-Type''"

text \<open>
  Modelled from the spec: \<open>common.MIMEApplicationJSONCharsetUTF8\<close> is declared outside
  context.go; the spec calls it the JSON-with-UTF8-charset identifier. No property below
  depends on its text.
\<close>

definition common_MIMEApplicationJSONCharsetUTF8 :: string where
  "common_MIMEApplicationJSONCharsetUTF8 = ''application/json; charset=UTF-8''"

text \<open>
  Modelled from the spec: \<open>common.MIMETextPlainCharsetUTF8\<close> is declared outside
  context.go; the spec calls it the plain-text content type. No property below depends on
  its text.
\<close>

definition common_MIMETextPlainCharsetUTF8 :: string where
  "common_MIMETextPlainCharsetUTF8 = ''text/plain; charset=UTF-8''"

text \<open>The constant \<open>MIMEMultipartPOSTForm\<close> of context.go.\<close>

definition MIMEMultipartPOSTForm :: string where
  "MIMEMultipartPOSTForm = ''multipart/form-data''"

text \<open>
  Modelled from the spec: the type \<open>HandlerFunc\<close> and the package-level
  \<open>NotFoundHandler\<close> are declared outside context.go. A \<open>HandlerFunc\<close> is a Go
  function value, so it may be \<open>nil\<close>; the spec describes \<open>NotFoundHandler\<close> as the
  deterministic not-found handler, a callable and not a null reference. Any other
  handler is one that the router installs.
\<close>

datatype 'h HandlerFunc = NilHandler | NotFoundHandler | RouteHandler 'h

text \<open>
  Modelled from the spec: the type \<open>Response\<close> is declared outside context.go; only
  its exported field \<open>Status\<close> is visible there. The spec describes the response as
  the wrapper around the outbound writer. The model keeps the wrapped writer, the
  \<open>Status\<close> field and, in \<open>calls\<close>, the method calls that the context has made on
  the response since the last \<open>Reset\<close>, oldest first.
\<close>

datatype call =
    HeaderSet string string    \<comment> \<open>\<open>Header().Set(key, value)\<close>\<close>
  | WriteHeader int            \<comment> \<open>\<open>WriteHeader(code)\<close>: the status line\<close>
  | Write bytes                \<comment> \<open>\<open>Write(data)\<close>: bytes of the body\<close>

record Response =
  Writer :: ResponseWriter
  Status :: int
  calls :: "call list"

text \<open>
  Modelled from the spec: the method \<open>Reset\<close> of \<open>Response\<close> is declared outside
  context.go. The spec says that it clears the response and rewraps it around the new
  writer, with no header state and no written flag left from the request before. The
  model binds the new writer, forgets the recorded calls and clears \<open>Status\<close> to the
  zero of its type.
\<close>

definition Response_Reset :: "ResponseWriter \<Rightarrow> Response \<Rightarrow> Response" where
  "Response_Reset w r = \<lparr>Writer = w, Status = 0, calls = []\<rparr>"

text \<open>
  Modelled from the spec: the method \<open>Header\<close> of \<open>Response\<close> is declared outside
  context.go. The response wraps the outbound writer, so its headers are the writer's
  header map. The map is shared: \<open>Header().Set(key, value)\<close> changes the writer's map.
\<close>

definition Response_Header :: "Response \<Rightarrow> Header" where
  "Response_Header r = WHeader (Writer r)"

definition Response_Header_Set :: "string \<Rightarrow> string \<Rightarrow> Response \<Rightarrow> Response" where
  "Response_Header_Set key v r =
     r\<lparr>Writer := (Writer r)\<lparr>WHeader := Header_Set (WHeader (Writer r)) key v\<rparr>,
       calls := calls r @ [HeaderSet key v]\<rparr>"

text \<open>
  Modelled from the spec: the method \<open>WriteHeader\<close> of \<open>Response\<close> is declared
  outside context.go. The spec calls it the primitive that writes the status line. What
  it does inside the wrapper is not modelled: the call is recorded.
\<close>

definition Response_WriteHeader :: "int \<Rightarrow> Response \<Rightarrow> Response" where
  "Response_WriteHeader code r = r\<lparr>calls := calls r @ [WriteHeader code]\<rparr>"

text \<open>
  Modelled from the spec: the method \<open>Write\<close> of \<open>Response\<close> is declared outside
  context.go. The spec calls it the underlying write, whose error signals a failure of
  the transport. The call is recorded and the outcome of the transport is returned.
\<close>

definition Response_Write :: "bytes \<Rightarrow> Response \<Rightarrow> error option \<times> Response" where
  "Response_Write data r = (werr (Writer r), r\<lparr>calls := calls r @ [Write data]\<rparr>)"

subsection \<open>The context\<close>

text \<open>
  The struct \<open>Context\<close>. The logger, the cache and the owning framework instance are
  references that the context stores and hands back; their types are parameters. The
  pointers \<open>request\<close> and \<open>response\<close> are taken to point to a request and a
  response, as they do in a context that the framework has bound; the model holds the
  two objects in the context and passes the context along.
\<close>

record ('h, 'l, 'ca, 't) Context =
  request :: Request
  response :: Response
  path :: string
  handler :: "'h HandlerFunc"
  logger :: 'l
  requestCache :: 'ca
  tong :: 't

definition Reset ::
  "Request \<Rightarrow> ResponseWriter \<Rightarrow> 'l \<Rightarrow> 'ca \<Rightarrow> ('h, 'l, 'ca, 't) Context \<Rightarrow> ('h, 'l, 'ca, 't) Context" where
  "Reset r w lg cache c =
     c\<lparr>request := r,
       response := Response_Reset w (response c),
       path := [],
       handler := NotFoundHandler,
       logger := lg,
       requestCache := cache\<rparr>"

definition http_StatusMultipleChoices :: int where
  "http_StatusMultipleChoices = 300"

definition http_StatusPermanentRedirect :: int where
  "http_StatusPermanentRedirect = 308"

definition Redirect ::
  "int \<Rightarrow> string \<Rightarrow> ('h, 'l, 'ca, 't) Context \<Rightarrow> error option \<times> ('h, 'l, 'ca, 't) Context" where
  "Redirect code url c =
     (if code < http_StatusMultipleChoices \<or> code > http_StatusPermanentRedirect
      then (Some (errors_New ''redirect code error''), c)
      else (None,
            c\<lparr>response :=
                Response_WriteHeader code
                  (Response_Header_Set common_HeaderLocation url (response c))\<rparr>))"

definition WriteContentType ::
  "string \<Rightarrow> ('h, 'l, 'ca, 't) Context \<Rightarrow> ('h, 'l, 'ca, 't) Context" where
  "WriteContentType v c =
     (if Header_Get (Response_Header (response c)) common_HeaderContentType = []
      then c\<lparr>response := Response_Header_Set common_HeaderContentType v (response c)\<rparr>
      else c)"

text \<open>The getters return the field.\<close>

definition Request :: "('h, 'l, 'ca, 't) Context \<Rightarrow> Request" where
  "Request c = request c"

definition Response :: "('h, 'l, 'ca, 't) Context \<Rightarrow> Response" where
  "Response c = response c"

definition Path :: "('h, 'l, 'ca, 't) Context \<Rightarrow> string" where
  "Path c = path c"

definition Handler :: "('h, 'l, 'ca, 't) Context \<Rightarrow> 'h HandlerFunc" where
  "Handler c = handler c"

definition RequestCache :: "('h, 'l, 'ca, 't) Context \<Rightarrow> 'ca" where
  "RequestCache c = requestCache c"

definition Logger :: "('h, 'l, 'ca, 't) Context \<Rightarrow> 'l" where
  "Logger c = logger c"

subsection \<open>Writers\<close>

definition Blob ::
  "int \<Rightarrow> string \<Rightarrow> bytes \<Rightarrow> ('h, 'l, 'ca, 't) Context \<Rightarrow> error option \<times> ('h, 'l, 'ca, 't) Context" where
  "Blob code contentType data c =
     (let c1 = c\<lparr>response := Response_WriteHeader code (response c)\<rparr>;
          c2 = WriteContentType contentType c1;
          (err, resp) = Response_Write data (response c2)
      in (err, c2\<lparr>response := resp\<rparr>))"

text \<open>
  The library functions whose results the methods pass on are parameters, collected in
  one record: the JSON encoding of a value of type \<open>interface{}\<close> (type \<open>'a\<close>) with
  the reason when the value cannot be encoded, the re-indentation of an encoding,
  \<open>strconv.ParseFloat(s, 64)\<close> into the type \<open>'f\<close> of 64-bit floating point numbers,
  and the two form parsers of \<open>*http.Request\<close>, which read the body and fill the
  form maps of the request.
\<close>

record ('a, 'f) Lib =
  json_marshal :: "'a \<Rightarrow> error + bytes"
  json_indent :: "string \<Rightarrow> string \<Rightarrow> bytes \<Rightarrow> error + bytes"
  ParseFloat64 :: "string \<Rightarrow> error + 'f"
  ParseForm :: "Request \<Rightarrow> error option \<times> Request"
  ParseMultipartForm :: "int \<Rightarrow> Request \<Rightarrow> error option \<times> Request"

text \<open>
  \<open>json.Encoder\<close>: \<open>Encode\<close> encodes the whole value first and returns the encoder's
  error without writing when that fails; otherwise it appends a newline, re-indents the
  text when a prefix or an indent is set, and hands the text to the writer in one
  \<open>Write\<close>, whose error it returns.
\<close>

record Encoder =
  indentPrefix :: string
  indentValue :: string

definition json_NewEncoder :: Encoder where
  "json_NewEncoder = \<lparr>indentPrefix = [], indentValue = []\<rparr>"

definition Encoder_SetIndent :: "string \<Rightarrow> string \<Rightarrow> Encoder \<Rightarrow> Encoder" where
  "Encoder_SetIndent prefix indent enc = enc\<lparr>indentPrefix := prefix, indentValue := indent\<rparr>"

definition Encoder_text :: "('a, 'f) Lib \<Rightarrow> Encoder \<Rightarrow> 'a \<Rightarrow> error + bytes" where
  "Encoder_text L enc v =
     (case json_marshal L v of
        Inl e \<Rightarrow> Inl e
      | Inr b \<Rightarrow>
          (if indentPrefix enc \<noteq> [] \<or> indentValue enc \<noteq> []
           then json_indent L (indentPrefix enc) (indentValue enc) (b @ [CHR 0x0A])
           else Inr (b @ [CHR 0x0A])))"

definition Encoder_Encode ::
  "('a, 'f) Lib \<Rightarrow> Encoder \<Rightarrow> 'a \<Rightarrow> Response \<Rightarrow> error option \<times> Response" where
  "Encoder_Encode L enc v resp =
     (case Encoder_text L enc v of
        Inl e \<Rightarrow> (Some e, resp)
      | Inr b \<Rightarrow> Response_Write b resp)"

definition Json ::
  "('a, 'f) Lib \<Rightarrow> int \<Rightarrow> 'a \<Rightarrow> string \<Rightarrow> ('h, 'l, 'ca, 't) Context
     \<Rightarrow> error option \<times> ('h, 'l, 'ca, 't) Context" where
  "Json L code v indent c =
     (let enc = (if indent \<noteq> [] then Encoder_SetIndent [] indent json_NewEncoder
                 else json_NewEncoder);
          c1 = WriteContentType common_MIMEApplicationJSONCharsetUTF8 c;
          c2 = c1\<lparr>response := (response c1)\<lparr>Status := code\<rparr>\<rparr>;
          (err, resp) = Encoder_Encode L enc v (response c2)
      in (err, c2\<lparr>response := resp\<rparr>))"

definition String ::
  "int \<Rightarrow> string \<Rightarrow> ('h, 'l, 'ca, 't) Context \<Rightarrow> error option \<times> ('h, 'l, 'ca, 't) Context" where
  "String code v c = Blob code common_MIMETextPlainCharsetUTF8 v c"

subsection \<open>Query readers\<close>

text \<open>
  \<open>strconv.Atoi\<close> where \<open>int\<close> has 64 bits: an optional sign, then one or more
  decimal digits; a syntax error for any other text, a range error for a number
  outside the type.
\<close>

fun digits_value :: "int \<Rightarrow> string \<Rightarrow> int" where
  "digits_value n [] = n"
| "digits_value n (ch # s) = digits_value (n * 10 + (int (of_char ch) - 48)) s"

definition Atoi :: "string \<Rightarrow> error + int" where
  "Atoi s =
     (let body = (case s of [] \<Rightarrow> []
                  | ch # rest \<Rightarrow> if ch = CHR ''-'' \<or> ch = CHR ''+'' then rest else s)
      in if body = [] \<or> \<not> list_all is_digit body then Inl (ErrSyntax s)
         else let n = digits_value 0 body;
                  v = (if take 1 s = ''-'' then - n else n)
              in if v < - (2 ^ 63) \<or> 2 ^ 63 - 1 < v then Inl (ErrRange s) else Inr v)"

definition QueryInt :: "string \<Rightarrow> int \<Rightarrow> ('h, 'l, 'ca, 't) Context \<Rightarrow> int" where
  "QueryInt key defaultValue c =
     (let v = Values_Get (URL_Query (request c)) key
      in if v = [] then defaultValue
         else (case Atoi v of Inl err \<Rightarrow> defaultValue | Inr ret \<Rightarrow> ret))"

definition QueryFloat :: "('a, 'f) Lib \<Rightarrow> string \<Rightarrow> 'f \<Rightarrow> ('h, 'l, 'ca, 't) Context \<Rightarrow> 'f" where
  "QueryFloat L key defaultValue c =
     (let v = Values_Get (URL_Query (request c)) key
      in if v = [] then defaultValue
         else (case ParseFloat64 L v of Inl err \<Rightarrow> defaultValue | Inr ret \<Rightarrow> ret))"

definition QueryString :: "string \<Rightarrow> string \<Rightarrow> ('h, 'l, 'ca, 't) Context \<Rightarrow> string" where
  "QueryString key defaultValue c =
     (let v = Values_Get (URL_Query (request c)) key
      in if v = [] then defaultValue else v)"

definition QueryParams :: "('h, 'l, 'ca, 't) Context \<Rightarrow> Values" where
  "QueryParams c = URL_Query (request c)"

subsection \<open>Post readers\<close>

text \<open>
  \<open>Request.PostFormValue\<close> parses the body first when the request has no post form yet,
  with net/http's own threshold and ignoring the parser's error, and then returns the
  first value of the key in the post form. The parsing changes the request.
\<close>

definition http_defaultMaxMemory :: int where
  "http_defaultMaxMemory = 32 * 2 ^ 20"

definition PostFormValue :: "('a, 'f) Lib \<Rightarrow> Request \<Rightarrow> string \<Rightarrow> string \<times> Request" where
  "PostFormValue L r key =
     (let r' = (if PostForm r = None then snd (ParseMultipartForm L http_defaultMaxMemory r) else r)
      in (case PostForm r' of None \<Rightarrow> [] | Some m \<Rightarrow> Values_Get m key, r'))"

definition PostInt ::
  "('a, 'f) Lib \<Rightarrow> string \<Rightarrow> int \<Rightarrow> ('h, 'l, 'ca, 't) Context \<Rightarrow> int \<times> ('h, 'l, 'ca, 't) Context" where
  "PostInt L key defaultValue c =
     (let (v, r') = PostFormValue L (request c) key;
          c' = c\<lparr>request := r'\<rparr>
      in if v = [] then (defaultValue, c')
         else (case Atoi v of Inl err \<Rightarrow> (defaultValue, c') | Inr ret \<Rightarrow> (ret, c')))"

definition PostFloat ::
  "('a, 'f) Lib \<Rightarrow> string \<Rightarrow> 'f \<Rightarrow> ('h, 'l, 'ca, 't) Context \<Rightarrow> 'f \<times> ('h, 'l, 'ca, 't) Context" where
  "PostFloat L key defaultValue c =
     (let (v, r') = PostFormValue L (request c) key;
          c' = c\<lparr>request := r'\<rparr>
      in if v = [] then (defaultValue, c')
         else (case ParseFloat64 L v of Inl err \<Rightarrow> (defaultValue, c') | Inr ret \<Rightarrow> (ret, c')))"

definition PostString ::
  "('a, 'f) Lib \<Rightarrow> string \<Rightarrow> string \<Rightarrow> ('h, 'l, 'ca, 't) Context
     \<Rightarrow> string \<times> ('h, 'l, 'ca, 't) Context" where
  "PostString L key defaultValue c =
     (let (v, r') = PostFormValue L (request c) key;
          c' = c\<lparr>request := r'\<rparr>
      in if v = [] then (defaultValue, c') else (v, c'))"

definition defaultMemory :: int where
  "defaultMemory = 32 * 2 ^ 20"

definition FormParams ::
  "('a, 'f) Lib \<Rightarrow> ('h, 'l, 'ca, 't) Context
     \<Rightarrow> (error + Values option) \<times> ('h, 'l, 'ca, 't) Context" where
  "FormParams L c =
     (if HasPrefix (Header_Get (ReqHeader (request c)) HeaderContentType) MIMEMultipartPOSTForm
      then (case ParseMultipartForm L defaultMemory (request c) of
              (Some err, r') \<Rightarrow> (Inl err, c\<lparr>request := r'\<rparr>)
            | (None, r') \<Rightarrow> (Inr (Form r'), c\<lparr>request := r'\<rparr>))
      else (case ParseForm L (request c) of
              (Some err, r') \<Rightarrow> (Inl err, c\<lparr>request := r'\<rparr>)
            | (None, r') \<Rightarrow> (Inr (Form r'), c\<lparr>request := r'\<rparr>)))"

subsection \<open>Bind\<close>

text \<open>
  \<open>Bind\<close> calls the \<open>Bind\<close> method of the binder of the framework instance that
  \<open>tong\<close> points to, with a copy of the context. The parameter \<open>B\<close> maps a framework
  instance to that method. The binder gets the context by value, so it cannot assign the
  fields of the caller's context; it can fill the target and, through the two pointers
  of the copy, change the request and the response.
\<close>

type_synonym ('a, 'h, 'l, 'ca, 't) bind_method =
  "'t \<Rightarrow> 'a \<Rightarrow> ('h, 'l, 'ca, 't) Context \<Rightarrow> error option \<times> 'a \<times> Request \<times> Response"

definition Bind ::
  "('a, 'h, 'l, 'ca, 't) bind_method \<Rightarrow> 'a \<Rightarrow> ('h, 'l, 'ca, 't) Context
     \<Rightarrow> (error option \<times> 'a) \<times> ('h, 'l, 'ca, 't) Context" where
  "Bind B i c =
     (case B (tong c) i c of
        (err, i', r', resp') \<Rightarrow> ((err, i'), c\<lparr>request := r', response := resp'\<rparr>))"

subsection \<open>Sequences of method calls\<close>

text \<open>
  The methods of the context that can change it, as a datatype, and the context after a
  sequence of calls. The getters and the query readers only read the context.
\<close>

datatype ('a, 'f, 'l, 'ca) op =
    OpReset Request ResponseWriter 'l 'ca
  | OpRedirect int string
  | OpWriteContentType string
  | OpBlob int string bytes
  | OpJson int 'a string
  | OpString int string
  | OpPostInt string int
  | OpPostFloat string 'f
  | OpPostString string string
  | OpFormParams
  | OpBind 'a

fun exec ::
  "('a, 'f) Lib \<Rightarrow> ('a, 'h, 'l, 'ca, 't) bind_method \<Rightarrow> ('h, 'l, 'ca, 't) Context
     \<Rightarrow> ('a, 'f, 'l, 'ca) op \<Rightarrow> ('h, 'l, 'ca, 't) Context" where
  "exec L B c (OpReset r w lg cache) = Reset r w lg cache c"
| "exec L B c (OpRedirect code url) = snd (Redirect code url c)"
| "exec L B c (OpWriteContentType v) = WriteContentType v c"
| "exec L B c (OpBlob code contentType data) = snd (Blob code contentType data c)"
| "exec L B c (OpJson code v indent) = snd (Json L code v indent c)"
| "exec L B c (OpString code v) = snd (String code v c)"
| "exec L B c (OpPostInt key d) = snd (PostInt L key d c)"
| "exec L B c (OpPostFloat key d) = snd (PostFloat L key d c)"
| "exec L B c (OpPostString key d) = snd (PostString L key d c)"
| "exec L B c OpFormParams = snd (FormParams L c)"
| "exec L B c (OpBind i) = snd (Bind B i c)"

definition run ::
  "('a, 'f) Lib \<Rightarrow> ('a, 'h, 'l, 'ca, 't) bind_method \<Rightarrow> ('a, 'f, 'l, 'ca) op list
     \<Rightarrow> ('h, 'l, 'ca, 't) Context \<Rightarrow> ('h, 'l, 'ca, 't) Context" where
  "run L B ops c = foldl (exec L B) c ops"

subsection \<open>A context and collaborators for the examples\<close>

text \<open>
  A healthy writer with no header set; a writer whose connection is closed; a request for
  \<open>?n=42&s=abc\<close> with no body; the same request after its (empty) post form was
  parsed with a field \<open>n=17\<close> put in; and a context bound to the first request.
\<close>

definition writer0 :: ResponseWriter where
  "writer0 = \<lparr>WHeader = Map.empty, werr = None\<rparr>"

definition writer_closed :: ResponseWriter where
  "writer_closed = \<lparr>WHeader = Map.empty, werr = Some (LibError ''write: broken pipe'')\<rparr>"

definition request0 :: Request where
  "request0 =
     \<lparr>URL_Query = [''n'' \<mapsto> [''42''], ''s'' \<mapsto> [''abc'']], ReqHeader = Map.empty,
      Body = [], Form = None, PostForm = None\<rparr>"

definition request_posted :: Request where
  "request_posted =
     \<lparr>URL_Query = Map.empty, ReqHeader = Map.empty, Body = [],
      Form = Some [''n'' \<mapsto> [''17''], ''s'' \<mapsto> [''abc'']],
      PostForm = Some [''n'' \<mapsto> [''17''], ''s'' \<mapsto> [''abc'']]\<rparr>"

definition request_multipart :: Request where
  "request_multipart =
     \<lparr>URL_Query = Map.empty, ReqHeader = [''Content-Type'' \<mapsto> [''multipart/form-data'']],
      Body = [], Form = None, PostForm = None\<rparr>"

definition context0 :: "(nat, nat, nat, nat) Context" where
  "context0 =
     \<lparr>request = request0, response = \<lparr>Writer = writer0, Status = 0, calls = []\<rparr>,
      path = ''/users'', handler = RouteHandler 1, logger = 0, requestCache = 0, tong = 7\<rparr>"

text \<open>
  Collaborators for the examples. The JSON values are the booleans, with \<open>None\<close> for
  a value that has no encoding; the text of a boolean has nothing to indent. The float
  parser stands in for \<open>strconv.ParseFloat\<close> on whole numbers, with the reals for the
  floats. The form parsers are those of a request without a body: \<open>ParseForm\<close> fills
  the form from the query string, and \<open>ParseMultipartForm\<close> does the same and then
  fails, as it does for a request that has no multipart body. The binder binds nothing.
\<close>

definition lib0 :: "(bool option, real) Lib" where
  "lib0 =
     \<lparr>json_marshal = (\<lambda>v. case v of None \<Rightarrow> Inl (LibError ''json: unsupported type'')
                            | Some b \<Rightarrow> Inr (if b then ''true'' else ''false'')),
      json_indent = (\<lambda>prefix indent b. Inr b),
      ParseFloat64 = (\<lambda>s. case Atoi s of Inl e \<Rightarrow> Inl e | Inr n \<Rightarrow> Inr (of_int n)),
      ParseForm = (\<lambda>r. (None,
         r\<lparr>Form := Some (case Form r of None \<Rightarrow> URL_Query r | Some f \<Rightarrow> f),
           PostForm := Some (case PostForm r of None \<Rightarrow> Map.empty | Some f \<Rightarrow> f)\<rparr>)),
      ParseMultipartForm = (\<lambda>maxMemory r. (Some (LibError ''http: no multipart body''),
         r\<lparr>Form := Some (case Form r of None \<Rightarrow> URL_Query r | Some f \<Rightarrow> f),
           PostForm := Some (case PostForm r of None \<Rightarrow> Map.empty | Some f \<Rightarrow> f)\<rparr>))\<rparr>"

definition bind0 :: "(bool option, nat, nat, nat, nat) bind_method" where
  "bind0 t i c = (None, i, request c, response c)"

definition context_closed :: "(nat, nat, nat, nat) Context" where
  "context_closed = Reset request0 writer_closed 0 0 context0"

definition context_posted :: "(nat, nat, nat, nat) Context" where
  "context_posted = context0\<lparr>request := request_posted\<rparr>"

definition context_multipart :: "(nat, nat, nat, nat) Context" where
  "context_multipart = context0\<lparr>request := request_multipart\<rparr>"

subsection \<open>Notions used to state the properties\<close>

text \<open>
  The body that the spec describes for \<open>Json\<close>: the compact encoding of the value
  when the indent is empty, and that encoding re-indented with the indent for each level
  otherwise, each ended by the newline that the encoder appends; or the encoder's error.
  Lemma \<open>Json_encoder_text\<close> compares it with the encoder of the model.
\<close>

definition Json_text :: "('a, 'f) Lib \<Rightarrow> 'a \<Rightarrow> string \<Rightarrow> error + bytes" where
  "Json_text L v indent =
     (case json_marshal L v of
        Inl e \<Rightarrow> Inl e
      | Inr b \<Rightarrow> if indent = [] then Inr (b @ [CHR 0x0A])
                 else json_indent L [] indent (b @ [CHR 0x0A]))"

text \<open>A key is absent from a map of values when the map is \<open>nil\<close> or has no entry for it.\<close>

definition absent :: "Values option \<Rightarrow> string \<Rightarrow> bool" where
  "absent m key = (case m of None \<Rightarrow> True | Some vs \<Rightarrow> vs key = None)"

section \<open>Properties\<close>

subsection \<open>Headers\<close>

lemma Header_Get_Set: "Header_Get (Header_Set h key v) key = v"
  by (simp add: Header_Get_def Header_Set_def first_value_def)

lemma Header_Get_empty: "Header_Get Map.empty key = []"
  by (simp add: Header_Get_def first_value_def)

lemma context0_no_content_type:
  "Header_Get (Response_Header (response context0)) common_HeaderContentType = []"
  by (simp add: context0_def writer0_def Response_Header_def Header_Get_empty)

lemma WriteContentType_header:
  "Header_Get (Response_Header (response (WriteContentType v c))) common_HeaderContentType
     = (if Header_Get (Response_Header (response c)) common_HeaderContentType = [] then v
        else Header_Get (Response_Header (response c)) common_HeaderContentType)"
  by (simp add: WriteContentType_def Response_Header_def Response_Header_Set_def Header_Get_Set)

lemma WriteContentType_calls:
  "calls (response (WriteContentType v c))
     = calls (response c) @
       (if Header_Get (Response_Header (response c)) common_HeaderContentType = []
        then [HeaderSet common_HeaderContentType v] else [])"
  by (simp add: WriteContentType_def Response_Header_Set_def)

lemma WriteContentType_werr:
  "werr (Writer (response (WriteContentType v c))) = werr (Writer (response c))"
  by (simp add: WriteContentType_def Response_Header_Set_def)

lemma WriteContentType_Status:
  "Status (response (WriteContentType v c)) = Status (response c)"
  by (simp add: WriteContentType_def Response_Header_Set_def)

subsection \<open>Redirect\<close>

text \<open>
  Claim C1. For every code from 300 to 308, \<open>Redirect\<close> returns \<open>nil\<close>, the Location
  header then reads exactly the url, and the calls made on the response are the setting
  of that header followed by \<open>WriteHeader\<close> with the code. For every other code it
  returns the error \<open>redirect code error\<close> and leaves the whole context, its headers
  included, as it was.
\<close>

theorem Redirect_code_range:
  "(300 \<le> code \<and> code \<le> 308 \<longrightarrow>
      fst (Redirect code url c) = None \<and>
      Header_Get (Response_Header (response (snd (Redirect code url c)))) common_HeaderLocation = url \<and>
      calls (response (snd (Redirect code url c)))
        = calls (response c) @ [HeaderSet common_HeaderLocation url, WriteHeader code]) \<and>
   (code < 300 \<or> 308 < code \<longrightarrow>
      Redirect code url c = (Some (errors_New ''redirect code error''), c))"
  by (simp add: Redirect_def http_StatusMultipleChoices_def http_StatusPermanentRedirect_def
      Response_WriteHeader_def Response_Header_Set_def Response_Header_def Header_Get_Set)

text \<open>The codes 302, 404 and 299 on the example context.\<close>

theorem Redirect_code_range_witness:
  "fst (Redirect 302 ''/login'' context0) = None \<and>
   Header_Get (Response_Header (response (snd (Redirect 302 ''/login'' context0)))) common_HeaderLocation
     = ''/login'' \<and>
   calls (response (snd (Redirect 302 ''/login'' context0)))
     = [HeaderSet common_HeaderLocation ''/login'', WriteHeader 302] \<and>
   Redirect 404 ''/login'' context0 = (Some (errors_New ''redirect code error''), context0) \<and>
   Redirect 299 ''/login'' context0 = (Some (errors_New ''redirect code error''), context0)"
  using Redirect_code_range [of 302 "''/login''" context0]
    Redirect_code_range [of 404 "''/login''" context0]
    Redirect_code_range [of 299 "''/login''" context0]
  by (simp add: context0_def)

subsection \<open>WriteContentType\<close>

text \<open>
  Claim C3, as the spec states it, says that two calls with two different values leave
  the header at the first value and never at the second. The guard of
  \<open>WriteContentType\<close> tests whether the header reads as the empty string, so an empty
  first value is no value: on a response with no Content-Type, the calls with \<open>""\<close>
  and then \<open>text/html\<close> leave the header at \<open>text/html\<close>, the second value.
\<close>

theorem WriteContentType_first_value_counterexample:
  "Header_Get (Response_Header (response
       (WriteContentType ''text/html'' (WriteContentType [] context0)))) common_HeaderContentType
     = ''text/html'' \<and>
   Header_Get (Response_Header (response
       (WriteContentType ''text/html'' (WriteContentType [] context0)))) common_HeaderContentType
     \<noteq> []"
  by (simp add: WriteContentType_header context0_no_content_type)

text \<open>
  Claim C3, amended. When the Content-Type header reads as empty, \<open>WriteContentType\<close>
  sets it to the value supplied; otherwise it leaves the context as it is. On a response
  whose Content-Type reads as empty, two calls of which the first supplies a value that is
  not empty leave the header at the first value, whatever the second is.
\<close>

theorem WriteContentType_guarded:
  "(Header_Get (Response_Header (response c)) common_HeaderContentType = [] \<longrightarrow>
      Header_Get (Response_Header (response (WriteContentType v1 c))) common_HeaderContentType = v1) \<and>
   (Header_Get (Response_Header (response c)) common_HeaderContentType \<noteq> [] \<longrightarrow>
      WriteContentType v1 c = c) \<and>
   (Header_Get (Response_Header (response c)) common_HeaderContentType = [] \<and> v1 \<noteq> [] \<longrightarrow>
      Header_Get (Response_Header (response (WriteContentType v2 (WriteContentType v1 c))))
        common_HeaderContentType = v1)"
  by (simp add: WriteContentType_header) (simp add: WriteContentType_def)

text \<open>\<open>text/html\<close> and then \<open>text/plain\<close> on the example context.\<close>

theorem WriteContentType_guarded_witness:
  "Header_Get (Response_Header (response (WriteContentType ''text/html'' context0)))
     common_HeaderContentType = ''text/html'' \<and>
   WriteContentType ''text/plain'' (WriteContentType ''text/html'' context0)
     = WriteContentType ''text/html'' context0 \<and>
   Header_Get (Response_Header (response
       (WriteContentType ''text/plain'' (WriteContentType ''text/html'' context0))))
     common_HeaderContentType = ''text/html''"
proof -
  note e = context0_no_content_type
  have n: "Header_Get (Response_Header (response (WriteContentType ''text/html'' context0)))
     common_HeaderContentType \<noteq> []"
    using e by (simp add: WriteContentType_header)
  show ?thesis
    using e n WriteContentType_guarded [of context0 "''text/html''" "''text/plain''"]
      WriteContentType_guarded [of "WriteContentType ''text/html'' context0" "''text/plain''" "[]"]
    by simp
qed

subsection \<open>Reset\<close>

text \<open>
  Claim C4. \<open>Reset\<close> binds the request, the logger and the cache to its arguments,
  sets the path to the empty string and the handler to \<open>NotFoundHandler\<close>, and resets
  the response around the new writer: the headers seen through the context are then the
  new writer's and no call on the response is left. The context after \<open>Reset\<close> is the
  same whatever request, response, path, handler, logger and cache the context held
  before: only \<open>tong\<close> is kept.
\<close>

theorem Reset_rebinds:
  "Request (Reset r w lg cache c) = r \<and>
   Logger (Reset r w lg cache c) = lg \<and>
   RequestCache (Reset r w lg cache c) = cache \<and>
   Path (Reset r w lg cache c) = [] \<and>
   Handler (Reset r w lg cache c) = NotFoundHandler \<and>
   Response (Reset r w lg cache c) = Response_Reset w (response c) \<and>
   Writer (Response (Reset r w lg cache c)) = w \<and>
   Response_Header (Response (Reset r w lg cache c)) = WHeader w \<and>
   calls (Response (Reset r w lg cache c)) = [] \<and>
   Reset r w lg cache c = Reset r w lg cache (c'\<lparr>tong := tong c\<rparr>)"
  by (simp add: Reset_def Request_def Logger_def RequestCache_def Path_def Handler_def
      Response_def Response_Reset_def Response_Header_def)

text \<open>
  The example context after a redirect, reset for another request and a writer: nothing
  of the redirect is left, and the result is that of resetting the untouched context.
\<close>

theorem Reset_rebinds_witness:
  "Path (Reset request_posted writer_closed 1 2 (snd (Redirect 302 ''/login'' context0))) = [] \<and>
   Handler (Reset request_posted writer_closed 1 2 (snd (Redirect 302 ''/login'' context0)))
     = NotFoundHandler \<and>
   Request (Reset request_posted writer_closed 1 2 (snd (Redirect 302 ''/login'' context0)))
     = request_posted \<and>
   Response_Header (Response (Reset request_posted writer_closed 1 2
       (snd (Redirect 302 ''/login'' context0)))) = WHeader writer_closed \<and>
   Reset request_posted writer_closed 1 2 (snd (Redirect 302 ''/login'' context0))
     = Reset request_posted writer_closed 1 2 context0"
proof -
  have t: "context0\<lparr>tong := tong (snd (Redirect 302 ''/login'' context0))\<rparr> = context0"
    by (simp add: Redirect_def context0_def http_StatusMultipleChoices_def
        http_StatusPermanentRedirect_def)
  show ?thesis
    using Reset_rebinds [of request_posted writer_closed 1 2
        "snd (Redirect 302 ''/login'' context0)" context0]
    unfolding t by blast
qed

subsection \<open>The example contexts\<close>

lemma context0_werr: "werr (Writer (response context0)) = None"
  by (simp add: context0_def writer0_def)

lemma context0_calls: "calls (response context0) = []"
  by (simp add: context0_def)

lemma context_closed_werr:
  "werr (Writer (response context_closed)) = Some (LibError ''write: broken pipe'')"
  by (simp add: context_closed_def Reset_def Response_Reset_def writer_closed_def)

subsection \<open>Blob and String\<close>

lemma Blob_unfold:
  "Blob code contentType data c
     = (let c2 = WriteContentType contentType
                   (c\<lparr>response := Response_WriteHeader code (response c)\<rparr>)
        in (werr (Writer (response c2)),
            c2\<lparr>response := (response c2)\<lparr>calls := calls (response c2) @ [Write data]\<rparr>\<rparr>))"
  by (simp add: Blob_def Response_Write_def Let_def)

lemma Blob_result: "fst (Blob code contentType data c) = werr (Writer (response c))"
  by (simp add: Blob_unfold Let_def WriteContentType_werr Response_WriteHeader_def)

lemma Blob_calls:
  "calls (response (snd (Blob code contentType data c)))
     = calls (response c) @ [WriteHeader code] @
       (if Header_Get (Response_Header (response c)) common_HeaderContentType = []
        then [HeaderSet common_HeaderContentType contentType] else []) @
       [Write data]"
  by (simp add: Blob_unfold Let_def WriteContentType_calls Response_WriteHeader_def
      Response_Header_def)

lemma Blob_header:
  "Header_Get (Response_Header (response (snd (Blob code contentType data c))))
       common_HeaderContentType
     = (if Header_Get (Response_Header (response c)) common_HeaderContentType = []
        then contentType
        else Header_Get (Response_Header (response c)) common_HeaderContentType)"
proof -
  let ?c1 = "c\<lparr>response := Response_WriteHeader code (response c)\<rparr>"
  have "Response_Header (response (snd (Blob code contentType data c)))
      = Response_Header (response (WriteContentType contentType ?c1))"
    by (simp add: Blob_unfold Let_def Response_Header_def)
  moreover have "Response_Header (response ?c1) = Response_Header (response c)"
    by (simp add: Response_Header_def Response_WriteHeader_def)
  ultimately show ?thesis
    using WriteContentType_header [of contentType ?c1] by simp
qed

text \<open>
  Claim C6. For every code, content type and payload, the calls that \<open>Blob\<close> makes
  on the response are, in this order, \<open>WriteHeader\<close> with the code, the setting of
  the Content-Type header when it reads as empty (the guarded setter), and \<open>Write\<close>
  with the payload as it is. \<open>Blob\<close> returns what the write returns: \<open>nil\<close> when the
  write succeeds, the error of the write when it fails.
\<close>

theorem Blob_status_then_type_then_body:
  "calls (response (snd (Blob code contentType data c)))
     = calls (response c) @ [WriteHeader code] @
       (if Header_Get (Response_Header (response c)) common_HeaderContentType = []
        then [HeaderSet common_HeaderContentType contentType] else []) @
       [Write data] \<and>
   Header_Get (Response_Header (response (snd (Blob code contentType data c))))
       common_HeaderContentType
     = (if Header_Get (Response_Header (response c)) common_HeaderContentType = []
        then contentType
        else Header_Get (Response_Header (response c)) common_HeaderContentType) \<and>
   fst (Blob code contentType data c) = werr (Writer (response c)) \<and>
   (werr (Writer (response c)) = None \<longrightarrow> fst (Blob code contentType data c) = None) \<and>
   (werr (Writer (response c)) = Some e \<longrightarrow> fst (Blob code contentType data c) = Some e)"
  by (simp add: Blob_result Blob_calls Blob_header)

text \<open>Three bytes on a healthy connection and on a closed one.\<close>

theorem Blob_status_then_type_then_body_witness:
  "fst (Blob 200 ''image/png'' ''abc'' context0) = None \<and>
   calls (response (snd (Blob 200 ''image/png'' ''abc'' context0)))
     = [WriteHeader 200, HeaderSet common_HeaderContentType ''image/png'', Write ''abc''] \<and>
   fst (Blob 200 ''image/png'' ''abc'' context_closed) = Some (LibError ''write: broken pipe'')"
  using Blob_status_then_type_then_body [of 200 "''image/png''" "''abc''" context0]
    Blob_status_then_type_then_body [of 200 "''image/png''" "''abc''" context_closed
      "LibError ''write: broken pipe''"]
    context0_werr context_closed_werr context0_calls context0_no_content_type
  by simp

text \<open>
  Claim C8. For every code and string, \<open>String\<close> is \<open>Blob\<close> with the plain-text
  content type and the bytes of the string: the same result and the same context after
  the call, so the same headers, status line and body.
\<close>

theorem String_is_Blob:
  "String code v c = Blob code common_MIMETextPlainCharsetUTF8 v c"
  by (simp add: String_def)

subsection \<open>Json\<close>

lemma Json_encoder_text:
  "Encoder_text L (if indent \<noteq> [] then Encoder_SetIndent [] indent json_NewEncoder
                   else json_NewEncoder) v
     = Json_text L v indent"
  by (simp add: Encoder_text_def Json_text_def Encoder_SetIndent_def json_NewEncoder_def
      split: sum.splits)

lemma Json_unfold:
  "Json L code v indent c
     = (let c2 = (WriteContentType common_MIMEApplicationJSONCharsetUTF8 c)
                    \<lparr>response := (response (WriteContentType common_MIMEApplicationJSONCharsetUTF8 c))
                       \<lparr>Status := code\<rparr>\<rparr>
        in case Json_text L v indent of
             Inl e \<Rightarrow> (Some e, c2)
           | Inr b \<Rightarrow> (werr (Writer (response c2)),
                       c2\<lparr>response := (response c2)\<lparr>calls := calls (response c2) @ [Write b]\<rparr>\<rparr>))"
  unfolding Json_def Let_def Encoder_Encode_def Json_encoder_text
  by (simp add: Response_Write_def split: sum.splits)

lemma Json_result:
  "fst (Json L code v indent c)
     = (case Json_text L v indent of Inl e \<Rightarrow> Some e | Inr b \<Rightarrow> werr (Writer (response c)))"
  by (simp add: Json_unfold Let_def WriteContentType_werr split: sum.splits)

lemma Json_Status: "Status (response (snd (Json L code v indent c))) = code"
  by (simp add: Json_unfold Let_def split: sum.splits)

lemma Json_calls:
  "calls (response (snd (Json L code v indent c)))
     = calls (response c) @
       (if Header_Get (Response_Header (response c)) common_HeaderContentType = []
        then [HeaderSet common_HeaderContentType common_MIMEApplicationJSONCharsetUTF8] else []) @
       (case Json_text L v indent of Inl e \<Rightarrow> [] | Inr b \<Rightarrow> [Write b])"
  by (simp add: Json_unfold Let_def WriteContentType_calls split: sum.splits)

lemma Json_header:
  "Header_Get (Response_Header (response (snd (Json L code v indent c))))
       common_HeaderContentType
     = (if Header_Get (Response_Header (response c)) common_HeaderContentType = []
        then common_MIMEApplicationJSONCharsetUTF8
        else Header_Get (Response_Header (response c)) common_HeaderContentType)"
proof -
  have "Response_Header (response (snd (Json L code v indent c)))
      = Response_Header (response (WriteContentType common_MIMEApplicationJSONCharsetUTF8 c))"
    by (simp add: Json_unfold Let_def Response_Header_def split: sum.splits)
  then show ?thesis
    by (simp add: WriteContentType_header)
qed

lemma Json_text_true: "Json_text lib0 (Some True) [] = Inr (''true'' @ [CHR 0x0A])"
  by (simp add: Json_text_def lib0_def)

lemma lib0_marshal_none: "json_marshal lib0 None = Inl (LibError ''json: unsupported type'')"
  by (simp add: lib0_def)

text \<open>
  Claim C5. For every code, value and indent, after \<open>Json\<close> the Content-Type header
  is the JSON identifier if it read as empty before and is unchanged otherwise; the
  \<open>Status\<close> field holds the code; \<open>Json\<close> itself has made no call of
  \<open>WriteHeader\<close>; the one write on the response carries the encoding of the value,
  compact for an empty indent and re-indented with the indent otherwise; and a value
  that cannot be encoded makes \<open>Json\<close> return the encoder's error.
\<close>

theorem Json_type_status_body:
  "Header_Get (Response_Header (response (snd (Json L code v indent c))))
       common_HeaderContentType
     = (if Header_Get (Response_Header (response c)) common_HeaderContentType = []
        then common_MIMEApplicationJSONCharsetUTF8
        else Header_Get (Response_Header (response c)) common_HeaderContentType) \<and>
   Status (response (snd (Json L code v indent c))) = code \<and>
   calls (response (snd (Json L code v indent c)))
     = calls (response c) @
       (if Header_Get (Response_Header (response c)) common_HeaderContentType = []
        then [HeaderSet common_HeaderContentType common_MIMEApplicationJSONCharsetUTF8] else []) @
       (case Json_text L v indent of Inl e \<Rightarrow> [] | Inr b \<Rightarrow> [Write b]) \<and>
   (\<forall>k. WriteHeader k \<in> set (calls (response (snd (Json L code v indent c))))
        \<longrightarrow> WriteHeader k \<in> set (calls (response c))) \<and>
   fst (Json L code v indent c)
     = (case Json_text L v indent of Inl e \<Rightarrow> Some e | Inr b \<Rightarrow> werr (Writer (response c))) \<and>
   (json_marshal L v = Inl e \<longrightarrow> fst (Json L code v indent c) = Some e)"
proof -
  have nowh: "\<forall>k. WriteHeader k \<in> set (calls (response (snd (Json L code v indent c))))
        \<longrightarrow> WriteHeader k \<in> set (calls (response c))"
    by (simp add: Json_calls split: sum.splits)
  have enc: "json_marshal L v = Inl e \<longrightarrow> fst (Json L code v indent c) = Some e"
    by (simp add: Json_result Json_text_def)
  show ?thesis
    using nowh enc by (simp add: Json_header Json_Status Json_calls Json_result)
qed

text \<open>The value \<open>true\<close> with an empty indent, and a value without an encoding.\<close>

theorem Json_type_status_body_witness:
  "fst (Json lib0 200 (Some True) [] context0) = None \<and>
   Status (response (snd (Json lib0 200 (Some True) [] context0))) = 200 \<and>
   Header_Get (Response_Header (response (snd (Json lib0 200 (Some True) [] context0))))
     common_HeaderContentType = common_MIMEApplicationJSONCharsetUTF8 \<and>
   calls (response (snd (Json lib0 200 (Some True) [] context0)))
     = [HeaderSet common_HeaderContentType common_MIMEApplicationJSONCharsetUTF8,
        Write (''true'' @ [CHR 0x0A])] \<and>
   WriteHeader 200 \<notin> set (calls (response (snd (Json lib0 200 (Some True) [] context0)))) \<and>
   fst (Json lib0 500 None ''  '' context0) = Some (LibError ''json: unsupported type'')"
proof -
  have a: "WriteHeader 200 \<notin> set (calls (response context0))"
    by (simp add: context0_calls)
  show ?thesis
    using Json_type_status_body [of lib0 200 "Some True" "[]" context0]
      Json_type_status_body [of lib0 500 None "''  ''" context0 "LibError ''json: unsupported type''"]
      a context0_werr context0_calls context0_no_content_type Json_text_true lib0_marshal_none
    by auto
qed

subsection \<open>The scalar getters\<close>

lemma Atoi_empty: "Atoi [] = Inl (ErrSyntax [])"
  by (simp add: Atoi_def)

lemma Atoi_42: "Atoi ''42'' = Inr 42"
  by (simp add: Atoi_def is_digit_def)

lemma Atoi_17: "Atoi ''17'' = Inr 17"
  by (simp add: Atoi_def is_digit_def)

lemma Atoi_abc: "Atoi ''abc'' = Inl (ErrSyntax ''abc'')"
  by (simp add: Atoi_def is_digit_def)

lemma Values_Get_absent: "m key = None \<Longrightarrow> Values_Get m key = []"
  by (simp add: Values_Get_def first_value_def)

lemma PostFormValue_absent:
  "absent (PostForm (snd (PostFormValue L r key))) key \<Longrightarrow> fst (PostFormValue L r key) = []"
  by (auto simp: PostFormValue_def Let_def absent_def Values_Get_absent split: option.splits)

lemma QueryInt_cases:
  "QueryInt key d c
     = (case Atoi (Values_Get (URL_Query (request c)) key) of Inl e \<Rightarrow> d | Inr n \<Rightarrow> n)"
  by (simp add: QueryInt_def Let_def Atoi_empty)

lemma PostInt_cases:
  "PostInt L key d c
     = (case Atoi (fst (PostFormValue L (request c) key)) of Inl e \<Rightarrow> d | Inr n \<Rightarrow> n,
        c\<lparr>request := snd (PostFormValue L (request c) key)\<rparr>)"
  by (simp add: PostInt_def Let_def Atoi_empty split_beta split: sum.splits)

lemma QueryFloat_cases:
  "QueryFloat L key x c
     = (if Values_Get (URL_Query (request c)) key = [] then x
        else case ParseFloat64 L (Values_Get (URL_Query (request c)) key) of
               Inl e \<Rightarrow> x | Inr y \<Rightarrow> y)"
  by (simp add: QueryFloat_def Let_def)

lemma PostFloat_cases:
  "PostFloat L key x c
     = (if fst (PostFormValue L (request c) key) = [] then x
        else case ParseFloat64 L (fst (PostFormValue L (request c) key)) of
               Inl e \<Rightarrow> x | Inr y \<Rightarrow> y,
        c\<lparr>request := snd (PostFormValue L (request c) key)\<rparr>)"
  by (simp add: PostFloat_def Let_def split_beta split: sum.splits)

lemma context0_query_n: "Values_Get (URL_Query (request context0)) ''n'' = ''42''"
  by (simp add: context0_def request0_def Values_Get_def first_value_def)

lemma context0_query_s: "Values_Get (URL_Query (request context0)) ''s'' = ''abc''"
  by (simp add: context0_def request0_def Values_Get_def first_value_def)

lemma context0_query_absent: "absent (Some (URL_Query (request context0))) ''page''"
  by (simp add: context0_def request0_def absent_def)

lemma context_posted_n: "PostFormValue lib0 (request context_posted) ''n'' = (''17'', request_posted)"
  by (simp add: context_posted_def request_posted_def PostFormValue_def Values_Get_def
      first_value_def)

lemma context_posted_s: "PostFormValue lib0 (request context_posted) ''s'' = (''abc'', request_posted)"
  by (simp add: context_posted_def request_posted_def PostFormValue_def Values_Get_def
      first_value_def)

lemma context_posted_absent:
  "absent (PostForm (snd (PostFormValue lib0 (request context_posted) ''page''))) ''page''"
  by (simp add: context_posted_def request_posted_def PostFormValue_def absent_def)

lemma lib0_float_42: "ParseFloat64 lib0 ''42'' = Inr 42"
  by (simp add: lib0_def Atoi_42)

lemma lib0_float_17: "ParseFloat64 lib0 ''17'' = Inr 17"
  by (simp add: lib0_def Atoi_17)

lemma lib0_float_abc: "ParseFloat64 lib0 ''abc'' = Inl (ErrSyntax ''abc'')"
  by (simp add: lib0_def Atoi_abc)

text \<open>
  Claim C2. For every key and default, \<open>QueryInt\<close>, \<open>QueryFloat\<close>, \<open>PostInt\<close> and
  \<open>PostFloat\<close> return the default when the key is absent from their source (the query
  string, or the post form of the request once parsed) and when the value of the key
  does not parse as a number, and the parsed number when it does. Their result is the
  number alone, and the context after a post getter is the same in each case, so an
  absent key and a malformed value cannot be told apart.
\<close>

theorem scalar_getters_default_or_parsed:
  "(absent (Some (URL_Query (request c))) key \<longrightarrow>
      QueryInt key d c = d \<and> QueryFloat L key x c = x) \<and>
   (Atoi (Values_Get (URL_Query (request c)) key) = Inl e \<longrightarrow> QueryInt key d c = d) \<and>
   (ParseFloat64 L (Values_Get (URL_Query (request c)) key) = Inl e \<longrightarrow>
      QueryFloat L key x c = x) \<and>
   (Atoi (Values_Get (URL_Query (request c)) key) = Inr n \<longrightarrow> QueryInt key d c = n) \<and>
   (Values_Get (URL_Query (request c)) key \<noteq> [] \<and>
    ParseFloat64 L (Values_Get (URL_Query (request c)) key) = Inr y \<longrightarrow>
      QueryFloat L key x c = y) \<and>
   (absent (PostForm (snd (PostFormValue L (request c) key))) key \<longrightarrow>
      fst (PostInt L key d c) = d \<and> fst (PostFloat L key x c) = x) \<and>
   (Atoi (fst (PostFormValue L (request c) key)) = Inl e \<longrightarrow> fst (PostInt L key d c) = d) \<and>
   (ParseFloat64 L (fst (PostFormValue L (request c) key)) = Inl e \<longrightarrow>
      fst (PostFloat L key x c) = x) \<and>
   (Atoi (fst (PostFormValue L (request c) key)) = Inr n \<longrightarrow> fst (PostInt L key d c) = n) \<and>
   (fst (PostFormValue L (request c) key) \<noteq> [] \<and>
    ParseFloat64 L (fst (PostFormValue L (request c) key)) = Inr y \<longrightarrow>
      fst (PostFloat L key x c) = y) \<and>
   snd (PostInt L key d c) = c\<lparr>request := snd (PostFormValue L (request c) key)\<rparr> \<and>
   snd (PostFloat L key x c) = c\<lparr>request := snd (PostFormValue L (request c) key)\<rparr>"
proof -
  have q: "absent (Some (URL_Query (request c))) key \<longrightarrow>
      QueryInt key d c = d \<and> QueryFloat L key x c = x"
    by (simp add: absent_def QueryInt_cases QueryFloat_cases Values_Get_absent Atoi_empty)
  have p: "absent (PostForm (snd (PostFormValue L (request c) key))) key \<longrightarrow>
      fst (PostInt L key d c) = d \<and> fst (PostFloat L key x c) = x"
    by (simp add: PostInt_cases PostFloat_cases PostFormValue_absent Atoi_empty)
  show ?thesis
    using q p by (simp add: QueryInt_cases QueryFloat_cases PostInt_cases PostFloat_cases)
qed

text \<open>
  The query string \<open>?n=42&s=abc\<close> and the post form \<open>n=17&s=abc\<close>, with the
  defaults 7 and 2.5: a number, a malformed value and an absent key for each getter.
\<close>

theorem scalar_getters_default_or_parsed_witness:
  "QueryInt ''n'' 7 context0 = 42 \<and>
   QueryInt ''s'' 7 context0 = 7 \<and>
   QueryInt ''page'' 7 context0 = 7 \<and>
   QueryFloat lib0 ''n'' (5 / 2) context0 = 42 \<and>
   QueryFloat lib0 ''s'' (5 / 2) context0 = 5 / 2 \<and>
   QueryFloat lib0 ''page'' (5 / 2) context0 = 5 / 2 \<and>
   fst (PostInt lib0 ''n'' 7 context_posted) = 17 \<and>
   fst (PostInt lib0 ''s'' 7 context_posted) = 7 \<and>
   fst (PostInt lib0 ''page'' 7 context_posted) = 7 \<and>
   fst (PostFloat lib0 ''n'' (5 / 2) context_posted) = 17 \<and>
   fst (PostFloat lib0 ''s'' (5 / 2) context_posted) = 5 / 2 \<and>
   fst (PostFloat lib0 ''page'' (5 / 2) context_posted) = 5 / 2"
  using scalar_getters_default_or_parsed
      [of context0 "''n''" 7 lib0 "5 / 2" "ErrSyntax ''abc''" 42 42]
    scalar_getters_default_or_parsed
      [of context0 "''s''" 7 lib0 "5 / 2" "ErrSyntax ''abc''" 42 42]
    scalar_getters_default_or_parsed
      [of context0 "''page''" 7 lib0 "5 / 2" "ErrSyntax ''abc''" 42 42]
    scalar_getters_default_or_parsed
      [of context_posted "''n''" 7 lib0 "5 / 2" "ErrSyntax ''abc''" 17 17]
    scalar_getters_default_or_parsed
      [of context_posted "''s''" 7 lib0 "5 / 2" "ErrSyntax ''abc''" 17 17]
    scalar_getters_default_or_parsed
      [of context_posted "''page''" 7 lib0 "5 / 2" "ErrSyntax ''abc''" 17 17]
    context0_query_n context0_query_s context0_query_absent
    context_posted_n context_posted_s context_posted_absent
    Atoi_42 Atoi_17 Atoi_abc lib0_float_42 lib0_float_17 lib0_float_abc
  by simp

subsection \<open>FormParams\<close>

lemma canonical_Content_Type: "CanonicalMIMEHeaderKey ''Content-Type'' = ''Content-Type''"
  by code_simp

lemma context_multipart_type:
  "Header_Get (ReqHeader (request context_multipart)) HeaderContentType = ''multipart/form-data''"
  by (simp add: context_multipart_def request_multipart_def Header_Get_def HeaderContentType_def
      canonical_Content_Type first_value_def)

lemma context0_type:
  "Header_Get (ReqHeader (request context0)) HeaderContentType = []"
  by (simp add: context0_def request0_def Header_Get_empty)

text \<open>
  Claim C7. The threshold \<open>defaultMemory\<close> is 33,554,432, that is 32 MiB. When the
  Content-Type header of the request starts with \<open>multipart/form-data\<close>,
  \<open>FormParams\<close> parses the body as a multipart form with that threshold; otherwise it
  parses it as a URL-encoded form. It returns the error of the parser when the parser
  fails and the form of the parsed request when it succeeds.
\<close>

theorem FormParams_by_content_type:
  "defaultMemory = 33554432 \<and>
   (HasPrefix (Header_Get (ReqHeader (request c)) HeaderContentType) ''multipart/form-data'' \<longrightarrow>
      FormParams L c
        = (case ParseMultipartForm L 33554432 (request c) of
             (Some err, r') \<Rightarrow> (Inl err, c\<lparr>request := r'\<rparr>)
           | (None, r') \<Rightarrow> (Inr (Form r'), c\<lparr>request := r'\<rparr>))) \<and>
   (\<not> HasPrefix (Header_Get (ReqHeader (request c)) HeaderContentType) ''multipart/form-data'' \<longrightarrow>
      FormParams L c
        = (case ParseForm L (request c) of
             (Some err, r') \<Rightarrow> (Inl err, c\<lparr>request := r'\<rparr>)
           | (None, r') \<Rightarrow> (Inr (Form r'), c\<lparr>request := r'\<rparr>)))"
  by (simp add: FormParams_def defaultMemory_def MIMEMultipartPOSTForm_def)

text \<open>
  A request that announces a multipart form and has no body, and the example request,
  which has no Content-Type.
\<close>

theorem FormParams_by_content_type_witness:
  "fst (FormParams lib0 context_multipart) = Inl (LibError ''http: no multipart body'') \<and>
   fst (FormParams lib0 context0) = Inr (Some [''n'' \<mapsto> [''42''], ''s'' \<mapsto> [''abc'']])"
proof -
  have m: "HasPrefix ''multipart/form-data'' ''multipart/form-data''"
    by (simp add: HasPrefix_def)
  have n: "\<not> HasPrefix [] ''multipart/form-data''"
    by (simp add: HasPrefix_def)
  have pm: "ParseMultipartForm lib0 33554432 (request context_multipart)
      = (Some (LibError ''http: no multipart body''),
         request_multipart\<lparr>Form := Some Map.empty, PostForm := Some Map.empty\<rparr>)"
    by (simp add: lib0_def context_multipart_def request_multipart_def)
  have pf: "ParseForm lib0 (request context0)
      = (None, request0\<lparr>Form := Some [''n'' \<mapsto> [''42''], ''s'' \<mapsto> [''abc'']],
                        PostForm := Some Map.empty\<rparr>)"
    by (simp add: lib0_def context0_def request0_def)
  show ?thesis
    using FormParams_by_content_type [of context_multipart lib0]
      FormParams_by_content_type [of context0 lib0]
      m n pm pf context_multipart_type context0_type
    by simp
qed

subsection \<open>The handler and the framework instance\<close>

lemma exec_handler:
  "handler (exec L B c x)
     = (case x of OpReset r w lg cache \<Rightarrow> NotFoundHandler | _ \<Rightarrow> handler c)"
  by (cases x)
     (simp_all add: Reset_def Redirect_def WriteContentType_def Blob_unfold Json_unfold
        String_def PostInt_cases PostFloat_cases PostString_def FormParams_def Bind_def
        Let_def split_beta split: sum.splits option.splits prod.splits)

lemma exec_tong: "tong (exec L B c x) = tong c"
  by (cases x)
     (simp_all add: Reset_def Redirect_def WriteContentType_def Blob_unfold Json_unfold
        String_def PostInt_cases PostFloat_cases PostString_def FormParams_def Bind_def
        Let_def split_beta split: sum.splits option.splits prod.splits)

lemma foldl_exec_handler:
  "handler c \<noteq> NilHandler \<Longrightarrow> handler (foldl (exec L B) c xs) \<noteq> NilHandler"
proof (induction xs arbitrary: c)
  case Nil
  then show ?case by simp
next
  case (Cons x xs)
  have "handler (exec L B c x) \<noteq> NilHandler"
    using Cons.prems by (simp add: exec_handler split: op.splits)
  then show ?case
    using Cons.IH by simp
qed

lemma foldl_exec_tong: "tong (foldl (exec L B) c xs) = tong c"
  by (induction xs arbitrary: c) (simp_all add: exec_tong)

text \<open>
  Claim C9. \<open>Reset\<close> sets the handler to \<open>NotFoundHandler\<close>, which is not \<open>nil\<close>.
  No method of the context assigns the handler otherwise: after a \<open>Reset\<close> and any
  sequence of calls of the context's methods \<open>Handler()\<close> is not \<open>nil\<close>, and a
  context whose handler is not \<open>nil\<close> keeps a handler that is not \<open>nil\<close> through
  any sequence of calls.
\<close>

theorem handler_never_nil:
  "Handler (Reset r w lg cache c) = NotFoundHandler \<and>
   Handler (run L B xs (Reset r w lg cache c)) \<noteq> NilHandler \<and>
   (Handler c \<noteq> NilHandler \<longrightarrow> Handler (run L B xs c) \<noteq> NilHandler)"
proof -
  have r: "handler (Reset r w lg cache c) = NotFoundHandler"
    by (simp add: Reset_def)
  then have "handler (Reset r w lg cache c) \<noteq> NilHandler"
    by simp
  then have "handler (foldl (exec L B) (Reset r w lg cache c) xs) \<noteq> NilHandler"
    by (rule foldl_exec_handler)
  then show ?thesis
    using r foldl_exec_handler [of c L B xs] by (simp add: Handler_def run_def)
qed

text \<open>
  A redirect, a JSON body and a bind on the example context, whose handler is a route's,
  and the same calls after a reset of a context whose handler is \<open>nil\<close>.
\<close>

theorem handler_never_nil_witness:
  "Handler context0 \<noteq> NilHandler \<and>
   Handler (run lib0 bind0 [OpRedirect 302 ''/login'', OpJson 200 (Some True) [], OpBind None]
      context0) \<noteq> NilHandler \<and>
   Handler (run lib0 bind0 [OpRedirect 302 ''/login'', OpJson 200 (Some True) [], OpBind None]
      (Reset request_posted writer0 1 2 (context0\<lparr>handler := NilHandler\<rparr>))) \<noteq> NilHandler"
proof -
  have h: "Handler context0 \<noteq> NilHandler"
    by (simp add: Handler_def context0_def)
  show ?thesis
    using h
      handler_never_nil [of request_posted writer0 1 2 "context0\<lparr>handler := NilHandler\<rparr>"
        lib0 bind0 "[OpRedirect 302 ''/login'', OpJson 200 (Some True) [], OpBind None]"]
      handler_never_nil [of request_posted writer0 1 2 context0
        lib0 bind0 "[OpRedirect 302 ''/login'', OpJson 200 (Some True) [], OpBind None]"]
    by simp
qed

text \<open>
  Claim C10. \<open>Reset\<close> leaves the field \<open>tong\<close> as it is, and so does every other
  method: after any sequence of calls, resets included, \<open>tong\<close> is the framework
  instance that the context had at the start, and \<open>Bind\<close> returns what the binder of
  that instance returns.
\<close>

theorem Reset_keeps_tong:
  "tong (Reset r w lg cache c) = tong c \<and>
   tong (run L B xs c) = tong c \<and>
   fst (Bind B i (run L B xs c))
     = (case B (tong c) i (run L B xs c) of (err, i', r', resp') \<Rightarrow> (err, i'))"
  by (simp add: Reset_def run_def foldl_exec_tong Bind_def split: prod.splits)

text \<open>Two resets of the example context, whose framework instance is 7.\<close>

theorem Reset_keeps_tong_witness:
  "tong (Reset request_posted writer_closed 1 2 context0) = 7 \<and>
   tong (run lib0 bind0 [OpReset request_posted writer_closed 1 2, OpReset request0 writer0 3 4]
      context0) = 7 \<and>
   fst (Bind bind0 (Some True)
      (run lib0 bind0 [OpReset request_posted writer_closed 1 2, OpReset request0 writer0 3 4]
         context0)) = (None, Some True)"
proof -
  have t: "tong context0 = 7"
    by (simp add: context0_def)
  show ?thesis
    using t
      Reset_keeps_tong [of request_posted writer_closed 1 2 context0 lib0 bind0
        "[OpReset request_posted writer_closed 1 2, OpReset request0 writer0 3 4]" "Some True"]
    by (simp add: bind0_def)
qed

end
